theory Spec2Isabelle
  imports Main
begin

section \<open>Time, zones and the cron library\<close>

text \<open>
  The model works at minute resolution: a five-field cron expression fires on whole
  minutes and every anchor of the week is a midnight. A wall-clock reading is an integer
  number of minutes
  counted from a reference Monday 00:00 (2024-01-01), so that the weekday, the hour and
  the minute of a reading are plain quotients and remainders.
\<close>

datatype error =
    ZoneInfoNotFoundError
  | IndexError
  | CroniterBadCronError
  | CroniterBadDateError
  | JSONDecodeError
  | TypeError
  | AttributeError
  | KeyError
  | CalledProcessError

text \<open>
  A \<open>tzinfo\<close> object of Python: \<open>utcoffset\<close> gives the offset (in minutes) that applies
  to a wall-clock reading of the zone, \<open>fromutc\<close> turns a UTC reading into the zone's
  wall-clock reading. \<open>key\<close> is the IANA name; \<open>ZoneInfo\<close> caches one object per key, so
  object identity of zones is equality of keys.
\<close>

record tzinfo =
  key :: string
  utcoffset :: "int \<Rightarrow> int"
  fromutc :: "int \<Rightarrow> int"

definition fixed_zone :: "string \<Rightarrow> int \<Rightarrow> tzinfo" where
  "fixed_zone k off = \<lparr>key = k, utcoffset = (\<lambda>_. off), fromutc = (\<lambda>u. u + off)\<rparr>"

text \<open>An aware \<open>datetime\<close>: the naive wall-clock fields and the zone attached to them.\<close>

record datetime =
  wall :: int
  tzinfo :: tzinfo

definition weekday :: "datetime \<Rightarrow> int" where
  "weekday d = (wall d div 1440) mod 7"

definition hour :: "datetime \<Rightarrow> int" where
  "hour d = (wall d mod 1440) div 60"

definition minute :: "datetime \<Rightarrow> int" where
  "minute d = wall d mod 60"

text \<open>\<open>dt + timedelta(minutes=m)\<close>: arithmetic on the wall-clock fields, the zone is kept.\<close>

definition plus_minutes :: "datetime \<Rightarrow> int \<Rightarrow> datetime" where
  "plus_minutes d m = d\<lparr>wall := wall d + m\<rparr>"

text \<open>
  \<open>dt.astimezone(tz)\<close>: the same object when \<open>tz\<close> is the zone of \<open>dt\<close>; otherwise the
  reading is taken to UTC with the offset of its own zone and handed to \<open>tz.fromutc\<close>.
\<close>

definition astimezone :: "datetime \<Rightarrow> tzinfo \<Rightarrow> datetime" where
  "astimezone d tz =
     (if key tz = key (tzinfo d) then d
      else \<lparr>wall = fromutc tz (wall d - utcoffset (tzinfo d) (wall d)), tzinfo = tz\<rparr>)"

text \<open>
  \<open>a > b\<close> on aware datetimes: the naive fields are compared when both carry the same
  zone object, the UTC instants otherwise.
\<close>

definition dt_greater :: "datetime \<Rightarrow> datetime \<Rightarrow> bool" where
  "dt_greater a b =
     (if key (tzinfo a) = key (tzinfo b) then wall a > wall b
      else wall a - utcoffset (tzinfo a) (wall a) > wall b - utcoffset (tzinfo b) (wall b))"

text \<open>
  \<open>ZoneInfo(name)\<close> looks the name up in the system's zone database, which is outside
  the repository: the database is a parameter, a partial map from names to zones.
\<close>

definition ZoneInfo :: "(string \<rightharpoonup> tzinfo) \<Rightarrow> string \<Rightarrow> error + tzinfo" where
  "ZoneInfo db n = (case db n of None \<Rightarrow> Inl ZoneInfoNotFoundError | Some z \<Rightarrow> Inr z)"

text \<open>\<open>DISPLAY_TZ = ZoneInfo("Asia/Taipei")\<close>: UTC+8 with no daylight saving.\<close>

definition DISPLAY_TZ :: tzinfo where
  "DISPLAY_TZ = fixed_zone ''Asia/Taipei'' 480"

text \<open>
  The \<open>croniter\<close> package is outside the repository as well. Its interface is a
  parameter: \<open>parse_expr\<close> reads the expression (or raises), \<open>next_after s c\<close> is the first
  firing time of schedule \<open>s\<close> strictly after the wall-clock reading \<open>c\<close> (or raises).
  An iterator is the parsed schedule with the current position, which \<open>get_next\<close> moves.
\<close>

record 's cronlib =
  parse_expr :: "string \<Rightarrow> error + 's"
  next_after :: "'s \<Rightarrow> int \<Rightarrow> error + int"

record 's iterator =
  sched :: 's
  cur :: int

definition croniter :: "'s cronlib \<Rightarrow> string \<Rightarrow> datetime \<Rightarrow> error + 's iterator" where
  "croniter lib expr start =
     (case parse_expr lib expr of
        Inl e \<Rightarrow> Inl e
      | Inr s \<Rightarrow> Inr \<lparr>sched = s, cur = wall start\<rparr>)"

definition get_next :: "'s cronlib \<Rightarrow> 's iterator \<Rightarrow> error + (int \<times> 's iterator)" where
  "get_next lib it =
     (case next_after lib (sched it) (cur it) of
        Inl e \<Rightarrow> Inl e
      | Inr t \<Rightarrow> Inr (t, it\<lparr>cur := t\<rparr>))"

section \<open>generate.py\<close>

record job =
  name :: string
  description :: string
  cron :: string
  tz :: "string option"
  color :: string
  tag :: string

type_synonym occurrence = "int \<times> int \<times> int"

text \<open>
  \<open>get_week_range\<close>: the Monday 00:00 of the week of \<open>now\<close> (a reading in the display
  zone) and the six midnights after it.
\<close>

definition get_week_range :: "datetime \<Rightarrow> datetime list" where
  "get_week_range now =
     (let monday = plus_minutes now (- (1440 * weekday now));
          monday = monday\<lparr>wall := wall monday - wall monday mod 1440\<rparr>
      in map (\<lambda>i. plus_minutes monday (1440 * int i)) [0..<7])"

text \<open>Lines 30 and 31 of \<open>get_occurrences\<close>: the two ends of the search window.\<close>

definition week_start_of :: "tzinfo \<Rightarrow> datetime list \<Rightarrow> datetime" where
  "week_start_of job_tz week_days = plus_minutes (astimezone (hd week_days) job_tz) (- 60)"

definition week_end_of :: "tzinfo \<Rightarrow> datetime list \<Rightarrow> datetime" where
  "week_end_of job_tz week_days = plus_minutes (astimezone (last week_days) job_tz) (25 * 60)"

text \<open>
  The \<open>while True\<close> loop of \<open>get_occurrences\<close>, with \<open>results\<close> passed along. An
  exception of \<open>get_next\<close> leaves the loop through \<open>except Exception: pass\<close> with the
  results appended so far. The loop has no bound of its own, so the model is a partial
  function: \<open>None\<close> stands for a loop that never returns.
\<close>

partial_function (option) expand_loop ::
  "'s cronlib \<Rightarrow> tzinfo \<Rightarrow> datetime \<Rightarrow> 's iterator \<Rightarrow> occurrence list \<Rightarrow> occurrence list option"
where
  "expand_loop lib job_tz week_end it results =
     (case get_next lib it of
        Inl e \<Rightarrow> Some results
      | Inr (t, it') \<Rightarrow>
          (let next_run = \<lparr>wall = t, tzinfo = job_tz\<rparr> in
           if dt_greater next_run week_end then Some results
           else
             (let next_display = astimezone next_run DISPLAY_TZ;
                  day_idx = weekday next_display
              in expand_loop lib job_tz week_end it'
                   (if 0 \<le> day_idx \<and> day_idx \<le> 6
                    then results @ [(day_idx, hour next_display, minute next_display)]
                    else results))))"

declare expand_loop.simps [code]

text \<open>
  \<open>get_occurrences\<close>. The zone lookup and the two window ends are computed before the
  \<open>try\<close> block, so their exceptions leave the function; inside the block every
  exception ends with the results collected so far.
\<close>

definition get_occurrences ::
  "'s cronlib \<Rightarrow> (string \<rightharpoonup> tzinfo) \<Rightarrow> job \<Rightarrow> datetime list \<Rightarrow> (error + occurrence list) option"
where
  "get_occurrences lib db j week_days =
     (case ZoneInfo db (case tz j of None \<Rightarrow> ''UTC'' | Some n \<Rightarrow> n) of
        Inl e \<Rightarrow> Some (Inl e)
      | Inr job_tz \<Rightarrow>
          if week_days = [] then Some (Inl IndexError)
          else
            (let week_start = week_start_of job_tz week_days;
                 week_end = week_end_of job_tz week_days
             in case croniter lib (cron j) week_start of
                  Inl e \<Rightarrow> Some (Inr [])
                | Inr it \<Rightarrow> map_option Inr (expand_loop lib job_tz week_end it [])))"

text \<open>
  The loop again with a history variable: each appended occurrence is recorded as the pair
  of the raw firing time in the job's zone and its conversion to the display zone. The
  occurrence list of \<open>expand_loop\<close> is the image of this history under \<open>occurrence_of\<close>.
\<close>

definition occurrence_of :: "datetime \<times> datetime \<Rightarrow> occurrence" where
  "occurrence_of p = (weekday (snd p), hour (snd p), minute (snd p))"

partial_function (option) expand_history ::
  "'s cronlib \<Rightarrow> tzinfo \<Rightarrow> datetime \<Rightarrow> 's iterator \<Rightarrow> (datetime \<times> datetime) list
     \<Rightarrow> (datetime \<times> datetime) list option"
where
  "expand_history lib job_tz week_end it hist =
     (case get_next lib it of
        Inl e \<Rightarrow> Some hist
      | Inr (t, it') \<Rightarrow>
          (let next_run = \<lparr>wall = t, tzinfo = job_tz\<rparr> in
           if dt_greater next_run week_end then Some hist
           else
             (let next_display = astimezone next_run DISPLAY_TZ;
                  day_idx = weekday next_display
              in expand_history lib job_tz week_end it'
                   (if 0 \<le> day_idx \<and> day_idx \<le> 6
                    then hist @ [(next_run, next_display)]
                    else hist))))"

declare expand_history.simps [code]

definition occurrence_history ::
  "'s cronlib \<Rightarrow> (string \<rightharpoonup> tzinfo) \<Rightarrow> job \<Rightarrow> datetime list
     \<Rightarrow> (error + (datetime \<times> datetime) list) option"
where
  "occurrence_history lib db j week_days =
     (case ZoneInfo db (case tz j of None \<Rightarrow> ''UTC'' | Some n \<Rightarrow> n) of
        Inl e \<Rightarrow> Some (Inl e)
      | Inr job_tz \<Rightarrow>
          if week_days = [] then Some (Inl IndexError)
          else
            (let week_start = week_start_of job_tz week_days;
                 week_end = week_end_of job_tz week_days
             in case croniter lib (cron j) week_start of
                  Inl e \<Rightarrow> Some (Inr [])
                | Inr it \<Rightarrow> map_option Inr (expand_history lib job_tz week_end it [])))"


text \<open>The occurrence that the loop appends for a raw firing time \<open>t\<close> in the job's zone.\<close>

definition display_occurrence :: "tzinfo \<Rightarrow> int \<Rightarrow> occurrence" where
  "display_occurrence job_tz t =
     occurrence_of (\<lparr>wall = t, tzinfo = job_tz\<rparr>, astimezone \<lparr>wall = t, tzinfo = job_tz\<rparr> DISPLAY_TZ)"

text \<open>
  A schedule that, started after \<open>c\<close>, fires at the times \<open>ts\<close> one after the other and
  then raises.
\<close>

fun fires_then_raises :: "'s cronlib \<Rightarrow> 's \<Rightarrow> int \<Rightarrow> int list \<Rightarrow> bool" where
  "fires_then_raises lib s c [] = isl (next_after lib s c)"
| "fires_then_raises lib s c (t # ts) =
     (next_after lib s c = Inr t \<and> fires_then_raises lib s t ts)"


definition display_walls :: "(datetime \<times> datetime) list \<Rightarrow> int list" where
  "display_walls h = map (\<lambda>p. wall (snd p)) h"

subsection \<open>The grid and the legend of \<open>generate_html\<close>\<close>

text \<open>
  \<open>xs[i]\<close> in Python: an index from \<open>0\<close> to \<open>len - 1\<close>, or a negative one counted from the
  end; anything else raises \<open>IndexError\<close>.
\<close>

definition py_index :: "nat \<Rightarrow> int \<Rightarrow> nat option" where
  "py_index n i =
     (if 0 \<le> i \<and> i < int n then Some (nat i)
      else if - int n \<le> i \<and> i < 0 then Some (nat (int n + i))
      else None)"

type_synonym grid = "job list list list"

definition empty_grid :: grid where
  "empty_grid = replicate 7 (replicate 24 [])"

text \<open>\<open>grid[day_idx][hour].append(job)\<close>\<close>

definition grid_append :: "grid \<Rightarrow> occurrence \<Rightarrow> job \<Rightarrow> error + grid" where
  "grid_append g occ j =
     (case occ of (day_idx, hr, mi) \<Rightarrow>
        (case py_index (length g) day_idx of
           None \<Rightarrow> Inl IndexError
         | Some d \<Rightarrow>
             (case py_index (length (g ! d)) hr of
                None \<Rightarrow> Inl IndexError
              | Some h \<Rightarrow> Inr (g[d := (g ! d)[h := g ! d ! h @ [j]]]))))"

fun place_occurrences :: "grid \<Rightarrow> job \<Rightarrow> occurrence list \<Rightarrow> error + grid" where
  "place_occurrences g j [] = Inr g"
| "place_occurrences g j (occ # occs) =
     (case grid_append g occ j of
        Inl e \<Rightarrow> Inl e
      | Inr g' \<Rightarrow> place_occurrences g' j occs)"

text \<open>
  The loop over the jobs that fills the grid. An exception that leaves
  \<open>get_occurrences\<close> is not caught here, nor in \<open>main\<close>: it ends the rendering.
\<close>

fun fill_grid ::
  "'s cronlib \<Rightarrow> (string \<rightharpoonup> tzinfo) \<Rightarrow> datetime list \<Rightarrow> job list \<Rightarrow> grid \<Rightarrow> (error + grid) option"
where
  "fill_grid lib db week_days [] g = Some (Inr g)"
| "fill_grid lib db week_days (j # js) g =
     (case get_occurrences lib db j week_days of
        None \<Rightarrow> None
      | Some (Inl e) \<Rightarrow> Some (Inl e)
      | Some (Inr occs) \<Rightarrow>
          (case place_occurrences g j occs of
             Inl e \<Rightarrow> Some (Inl e)
           | Inr g' \<Rightarrow> fill_grid lib db week_days js g'))"

text \<open>
  A Python \<open>dict\<close> keeps its keys in the order of their first insertion; assigning to a
  key that is present replaces the value in place. It is an association list here.
\<close>

fun dict_set :: "('k \<times> 'v) list \<Rightarrow> 'k \<Rightarrow> 'v \<Rightarrow> ('k \<times> 'v) list" where
  "dict_set [] k v = [(k, v)]"
| "dict_set ((k', v') # d) k v =
     (if k' = k then (k, v) # d else (k', v') # dict_set d k v)"

text \<open>\<open>tag_colors = {}; for job in jobs: tag_colors[job["tag"]] = job["color"]\<close>\<close>

definition tag_colors :: "job list \<Rightarrow> (string \<times> string) list" where
  "tag_colors jobs = foldl (\<lambda>d j. dict_set d (tag j) (color j)) [] jobs"

definition legend_item :: "string \<times> string \<Rightarrow> string" where
  "legend_item p =
     ''<span class='' @ [CHR 0x22] @ ''legend-item'' @ [CHR 0x22] @ ''><span class='' @ [CHR 0x22]
       @ ''legend-dot'' @ [CHR 0x22] @ '' style='' @ [CHR 0x22] @ ''background:'' @ snd p
       @ [CHR 0x22] @ ''></span>'' @ fst p @ ''</span>''"

definition legend :: "job list \<Rightarrow> string" where
  "legend jobs = concat (map legend_item (tag_colors jobs))"


section \<open>sync\_jobs.py\<close>

datatype json =
    JNull
  | JBool bool
  | JNum int
  | JStr string
  | JArr "json list"
  | JObj "(string \<times> json) list"

text \<open>
  How a run of the script ends when it does not reach its last line: \<open>sys.exit(n)\<close>, or
  an exception that nothing catches (the interpreter prints it and exits with status 1).
\<close>

datatype abort = SystemExit int | Uncaught error

fun exit_status :: "abort \<Rightarrow> int" where
  "exit_status (SystemExit n) = n"
| "exit_status (Uncaught e) = 1"

record completed_process =
  returncode :: int
  stdout :: string
  stderr :: string

text \<open>
  What the script touches: the job store file (\<open>None\<close> when it does not exist) and the
  lines written to standard error.
\<close>

record world =
  jobs_file :: "string option"
  err_lines :: "string list"

text \<open>
  The outside of one run: the result of \<open>openclaw cron list --json\<close>, the return codes
  of the later subprocesses, and the JSON reader and writer of the standard library.
\<close>

record env =
  scheduler :: completed_process
  generate_rc :: int
  git_add_rc :: int
  git_diff_rc :: int
  git_commit_rc :: int
  git_push_rc :: int
  loads :: "string \<Rightarrow> json option"
  dumps :: "json \<Rightarrow> string"

definition NAME_COLORS :: "(string \<times> string) list" where
  "NAME_COLORS =
     [(''daily-review'', ''#4A90D9''),
      (''stock-forum-daily'', ''#27AE60''),
      (''weekly-review'', ''#8E44AD''),
      (''generate-calendar'', ''#E67E22'')]"

text \<open>\<open>d.get(k, default)\<close> on a value: only a JSON object has the method.\<close>

definition json_get :: "json \<Rightarrow> string \<Rightarrow> json \<Rightarrow> error + json" where
  "json_get v k dflt =
     (case v of
        JObj kvs \<Rightarrow> Inr (case map_of kvs k of None \<Rightarrow> dflt | Some x \<Rightarrow> x)
      | _ \<Rightarrow> Inl AttributeError)"

text \<open>\<open>v[k]\<close> with a string key: \<open>KeyError\<close> on an object without it, \<open>TypeError\<close> elsewhere.\<close>

definition json_item :: "json \<Rightarrow> string \<Rightarrow> error + json" where
  "json_item v k =
     (case v of
        JObj kvs \<Rightarrow> (case map_of kvs k of None \<Rightarrow> Inl KeyError | Some x \<Rightarrow> Inr x)
      | _ \<Rightarrow> Inl TypeError)"

text \<open>\<open>for x in v\<close>: the elements of an array, the keys of an object, the characters of a string.\<close>

definition json_iter :: "json \<Rightarrow> error + json list" where
  "json_iter v =
     (case v of
        JArr xs \<Rightarrow> Inr xs
      | JObj kvs \<Rightarrow> Inr (map (\<lambda>kv. JStr (fst kv)) kvs)
      | JStr s \<Rightarrow> Inr (map (\<lambda>c. JStr [c]) s)
      | _ \<Rightarrow> Inl TypeError)"

text \<open>
  A value used as a dictionary key: arrays and objects are unhashable, and the booleans
  are the numbers 1 and 0.
\<close>

definition hash_key :: "json \<Rightarrow> error + json" where
  "hash_key v =
     (case v of
        JArr xs \<Rightarrow> Inl TypeError
      | JObj kvs \<Rightarrow> Inl TypeError
      | JBool b \<Rightarrow> Inr (JNum (if b then 1 else 0))
      | _ \<Rightarrow> Inr v)"

definition truthy :: "json \<Rightarrow> bool" where
  "truthy v =
     (case v of
        JNull \<Rightarrow> False
      | JBool b \<Rightarrow> b
      | JNum n \<Rightarrow> n \<noteq> 0
      | JStr s \<Rightarrow> s \<noteq> []
      | JArr xs \<Rightarrow> xs \<noteq> []
      | JObj kvs \<Rightarrow> kvs \<noteq> [])"

text \<open>
  \<open>get_openclaw_jobs\<close>: a non-zero return code prints the diagnostic and calls
  \<open>sys.exit(1)\<close>; output that is not JSON raises from \<open>json.loads\<close>.
\<close>

definition get_openclaw_jobs :: "env \<Rightarrow> world \<Rightarrow> (abort + json) \<times> world" where
  "get_openclaw_jobs ev w =
     (let result = scheduler ev in
      if returncode result \<noteq> 0
      then (Inl (SystemExit 1), w\<lparr>err_lines := err_lines w @ [''Error: '' @ stderr result]\<rparr>)
      else
        (case loads ev (stdout result) of
           None \<Rightarrow> (Inl (Uncaught JSONDecodeError), w)
         | Some data \<Rightarrow>
             (case json_get data ''jobs'' (JArr []) of
                Inl e \<Rightarrow> (Inl (Uncaught e), w)
              | Inr js \<Rightarrow> (Inr js, w))))"

text \<open>The first loop of \<open>normalize\<close>: \<open>existing[j["name"]] = j\<close> for the stored jobs.\<close>

fun load_existing :: "(json \<times> json) list \<Rightarrow> json list \<Rightarrow> error + (json \<times> json) list" where
  "load_existing existing [] = Inr existing"
| "load_existing existing (j # js) =
     (case json_item j ''name'' of
        Inl e \<Rightarrow> Inl e
      | Inr n \<Rightarrow>
          (case hash_key n of
             Inl e \<Rightarrow> Inl e
           | Inr k \<Rightarrow> load_existing (dict_set existing k j) js))"

definition GENERATE_DESCRIPTION :: string where
  "GENERATE_DESCRIPTION =
     map char_of
       [232, 135, 170, 229, 139, 149, 231, 148, 162, 231, 148, 159, 230, 156, 172, 233, 128,
        177, 230, 155, 134, 233, 160, 129, 233, 157, 162, 228, 184, 166, 32, 112, 117, 115,
        104, 32, 229, 136, 176, 32, 71, 105, 116, 72, 117, 98, 32, 80, 97, 103, 101,
        115 :: nat]"

definition generate_calendar_job :: json where
  "generate_calendar_job =
     JObj [(''name'', JStr ''generate-calendar''),
           (''description'', JStr GENERATE_DESCRIPTION),
           (''cron'', JStr ''0 0 * * *''),
           (''tz'', JStr ''UTC''),
           (''color'', JStr (case map_of NAME_COLORS ''generate-calendar'' of
                               None \<Rightarrow> ''#E67E22'' | Some c \<Rightarrow> c)),
           (''tag'', JStr ''github-actions'')]"

text \<open>The body of the second loop of \<open>normalize\<close>, for one fetched job.\<close>

definition normalize_job :: "(json \<times> json) list \<Rightarrow> json \<Rightarrow> error + json" where
  "normalize_job existing jb =
     (case json_get jb ''name'' (JStr ''unknown'') of Inl e \<Rightarrow> Inl e | Inr nm \<Rightarrow>
      case json_get jb ''schedule'' (JObj []) of Inl e \<Rightarrow> Inl e | Inr schedule \<Rightarrow>
      case json_get schedule ''expr'' (JStr []) of Inl e \<Rightarrow> Inl e | Inr cron_expr \<Rightarrow>
      case json_get schedule ''tz'' (JStr ''UTC'') of Inl e \<Rightarrow> Inl e | Inr tz0 \<Rightarrow>
      case json_get jb ''description'' (JStr []) of Inl e \<Rightarrow> Inl e | Inr descr \<Rightarrow>
      case hash_key nm of Inl e \<Rightarrow> Inl e | Inr k \<Rightarrow>
      case json_get (case map_of existing k of None \<Rightarrow> JObj [] | Some x \<Rightarrow> x) ''color''
             (JStr (case nm of
                      JStr n \<Rightarrow> (case map_of NAME_COLORS n of None \<Rightarrow> ''#58A6FF'' | Some c \<Rightarrow> c)
                    | _ \<Rightarrow> ''#58A6FF''))
      of Inl e \<Rightarrow> Inl e | Inr col \<Rightarrow>
        Inr (JObj [(''name'', nm),
                   (''description'', descr),
                   (''cron'', cron_expr),
                   (''tz'', if truthy tz0 then tz0 else JStr ''UTC''),
                   (''color'', col),
                   (''tag'', JStr ''openclaw'')]))"

fun normalize_jobs :: "(json \<times> json) list \<Rightarrow> json list \<Rightarrow> json list \<Rightarrow> error + json list" where
  "normalize_jobs existing [] result = Inr result"
| "normalize_jobs existing (jb # jbs) result =
     (case normalize_job existing jb of
        Inl e \<Rightarrow> Inl e
      | Inr r \<Rightarrow> normalize_jobs existing jbs (result @ [r]))"

definition normalize :: "env \<Rightarrow> world \<Rightarrow> json \<Rightarrow> error + json list" where
  "normalize ev w jobs =
     (case (case jobs_file w of
              None \<Rightarrow> Inr []
            | Some text \<Rightarrow>
                (case loads ev text of
                   None \<Rightarrow> Inl JSONDecodeError
                 | Some stored \<Rightarrow>
                     (case json_iter stored of
                        Inl e \<Rightarrow> Inl e
                      | Inr js \<Rightarrow> load_existing [] js)))
      of Inl e \<Rightarrow> Inl e
       | Inr existing \<Rightarrow>
           (case json_iter jobs of
              Inl e \<Rightarrow> Inl e
            | Inr jbs \<Rightarrow> normalize_jobs existing jbs [generate_calendar_job]))"

text \<open>
  The steps of \<open>main\<close> after the store is written: \<open>generate.py\<close> and the git commands,
  each run with \<open>check=True\<close> but for \<open>git diff --cached --quiet\<close>, whose return code
  decides whether to commit and push. None of them touches the model's world.
\<close>

definition publish :: "env \<Rightarrow> int" where
  "publish ev =
     (if generate_rc ev \<noteq> 0 then exit_status (Uncaught CalledProcessError)
      else if git_add_rc ev \<noteq> 0 then exit_status (Uncaught CalledProcessError)
      else if git_diff_rc ev \<noteq> 0 then
        (if git_commit_rc ev \<noteq> 0 then exit_status (Uncaught CalledProcessError)
         else if git_push_rc ev \<noteq> 0 then exit_status (Uncaught CalledProcessError)
         else 0)
      else 0)"

text \<open>\<open>main\<close> of sync\_jobs.py: the exit status of the process and the world it leaves.\<close>

definition main :: "env \<Rightarrow> world \<Rightarrow> int \<times> world" where
  "main ev w =
     (case get_openclaw_jobs ev w of
        (Inl a, w1) \<Rightarrow> (exit_status a, w1)
      | (Inr jobs, w1) \<Rightarrow>
          (case normalize ev w1 jobs of
             Inl e \<Rightarrow> (exit_status (Uncaught e), w1)
           | Inr normalized \<Rightarrow>
               (let w2 = w1\<lparr>jobs_file := Some (dumps ev (JArr normalized))\<rparr>
                in (publish ev, w2))))"

section \<open>Stand-ins for the external parts\<close>

text \<open>
  A small cron library that fits the interface, used to run the code on concrete jobs. It
  knows a few shapes of expression only: \<open>* * * * *\<close> (every minute) and \<open>M H * * *\<close>
  with a numeric minute and hour (once a day), each either with five blank-separated
  fields or with a sixth field \<open>0\<close>, which the croniter package reads as the second of
  the minute. Any other text is rejected with \<open>CroniterBadCronError\<close>; the real library
  accepts many more expressions, and rejects an expression of four fields as this one does.
\<close>

fun split_fields :: "string \<Rightarrow> string list" where
  "split_fields [] = [[]]"
| "split_fields (c # cs) =
     (if c = CHR '' '' then [] # split_fields cs
      else (case split_fields cs of [] \<Rightarrow> [[c]] | w # ws \<Rightarrow> (c # w) # ws))"

definition fields :: "string \<Rightarrow> string list" where
  "fields s = filter (\<lambda>w. w \<noteq> []) (split_fields s)"

definition digit_of :: "char \<Rightarrow> int option" where
  "digit_of c = (if c \<in> set ''0123456789'' then Some (int (of_char c) - 48) else None)"

fun number_of :: "int \<Rightarrow> string \<Rightarrow> int option" where
  "number_of acc [] = Some acc"
| "number_of acc (c # cs) =
     (case digit_of c of None \<Rightarrow> None | Some d \<Rightarrow> number_of (10 * acc + d) cs)"

datatype sample_sched = EveryMinute | Daily int

definition sample_shape :: "string \<Rightarrow> string \<Rightarrow> string \<Rightarrow> string \<Rightarrow> string \<Rightarrow> error + sample_sched" where
  "sample_shape mi ho dmo mon dwk =
     (if dmo = ''*'' \<and> mon = ''*'' \<and> dwk = ''*'' then
        (if mi = ''*'' \<and> ho = ''*'' then Inr EveryMinute
         else (case (number_of 0 mi, number_of 0 ho) of
                 (Some m, Some h) \<Rightarrow>
                   if mi \<noteq> [] \<and> ho \<noteq> [] \<and> m < 60 \<and> h < 24 then Inr (Daily (60 * h + m))
                   else Inl CroniterBadCronError
               | _ \<Rightarrow> Inl CroniterBadCronError))
      else Inl CroniterBadCronError)"

definition sample_parse :: "string \<Rightarrow> error + sample_sched" where
  "sample_parse s =
     (case fields s of
        [mi, ho, dmo, mon, dwk] \<Rightarrow> sample_shape mi ho dmo mon dwk
      | [mi, ho, dmo, mon, dwk, sec] \<Rightarrow>
          if sec = ''0'' then sample_shape mi ho dmo mon dwk else Inl CroniterBadCronError
      | _ \<Rightarrow> Inl CroniterBadCronError)"

text \<open>The first reading strictly after \<open>c\<close> whose minute of the day is \<open>m\<close>.\<close>

definition next_daily :: "int \<Rightarrow> int \<Rightarrow> int" where
  "next_daily m c = c + 1 + (m - (c + 1)) mod 1440"

fun sample_next :: "sample_sched \<Rightarrow> int \<Rightarrow> error + int" where
  "sample_next EveryMinute c = Inr (c + 1)"
| "sample_next (Daily m) c = Inr (next_daily m c)"

definition sample_cron :: "sample_sched cronlib" where
  "sample_cron = \<lparr>parse_expr = sample_parse, next_after = sample_next\<rparr>"

text \<open>
  The same library with a horizon: a firing time beyond \<open>limit\<close> is not found and
  \<open>CroniterBadDateError\<close> is raised, as the real library does when its search gives up.
\<close>

definition with_horizon :: "int \<Rightarrow> 's cronlib \<Rightarrow> 's cronlib" where
  "with_horizon limit lib =
     lib\<lparr>next_after := (\<lambda>s c. case next_after lib s c of
                                 Inl e \<Rightarrow> Inl e
                               | Inr t \<Rightarrow> if t > limit then Inl CroniterBadDateError else Inr t)\<rparr>"

text \<open>A zone database with four fixed-offset zones; the last one is nine hours ahead of the display zone.\<close>

definition sample_db :: "string \<rightharpoonup> tzinfo" where
  "sample_db =
     [''UTC'' \<mapsto> fixed_zone ''UTC'' 0,
      ''Asia/Taipei'' \<mapsto> DISPLAY_TZ,
      ''Asia/Tokyo'' \<mapsto> fixed_zone ''Asia/Tokyo'' 540,
      ''Test/Plus17'' \<mapsto> fixed_zone ''Test/Plus17'' 1020]"

text \<open>A render time: Wednesday 2024-01-03 10:15 on the display clock.\<close>

definition sample_now :: datetime where
  "sample_now = \<lparr>wall = 2 * 1440 + 615, tzinfo = DISPLAY_TZ\<rparr>"

definition sample_job :: "string \<Rightarrow> string option \<Rightarrow> job" where
  "sample_job c z =
     \<lparr>name = ''job'', description = ''a job'', cron = c, tz = z, color = ''#4A90D9'', tag = ''openclaw''\<rparr>"

text \<open>A JSON reader that knows two texts, and a run of the scheduler command.\<close>

definition sample_loads :: "string \<Rightarrow> json option" where
  "sample_loads s =
     (if s = ''{}'' then Some (JObj [])
      else if s = ''[]'' then Some (JArr [])
      else None)"

definition sample_env :: "int \<Rightarrow> string \<Rightarrow> env" where
  "sample_env rc out =
     \<lparr>scheduler = \<lparr>returncode = rc, stdout = out, stderr = ''no gateway''\<rparr>,
      generate_rc = 0, git_add_rc = 0, git_diff_rc = 0, git_commit_rc = 0, git_push_rc = 0,
      loads = sample_loads, dumps = (\<lambda>v. ''[...]'')\<rparr>"

definition sample_world :: world where
  "sample_world = \<lparr>jobs_file = Some ''[]'', err_lines = []\<rparr>"

section \<open>Properties of the expansion loop\<close>

lemma weekday_range: "0 \<le> weekday d \<and> weekday d \<le> 6"
  by (simp add: weekday_def)

lemma expand_loop_raise:
  "get_next lib it = Inl e \<Longrightarrow> expand_loop lib job_tz week_end it rs = Some rs"
  by (subst expand_loop.simps) simp

lemma expand_loop_stop:
  "get_next lib it = Inr (t, it') \<Longrightarrow> dt_greater \<lparr>wall = t, tzinfo = job_tz\<rparr> week_end
   \<Longrightarrow> expand_loop lib job_tz week_end it rs = Some rs"
  by (subst expand_loop.simps) simp

lemma expand_loop_step:
  "get_next lib it = Inr (t, it') \<Longrightarrow> \<not> dt_greater \<lparr>wall = t, tzinfo = job_tz\<rparr> week_end
   \<Longrightarrow> expand_loop lib job_tz week_end it rs =
       expand_loop lib job_tz week_end it'
         (rs @ [occurrence_of (\<lparr>wall = t, tzinfo = job_tz\<rparr>, astimezone \<lparr>wall = t, tzinfo = job_tz\<rparr> DISPLAY_TZ)])"
  by (subst expand_loop.simps) (simp add: Let_def weekday_range occurrence_of_def)

lemma expand_history_raise:
  "get_next lib it = Inl e \<Longrightarrow> expand_history lib job_tz week_end it rs = Some rs"
  by (subst expand_history.simps) simp

lemma expand_history_stop:
  "get_next lib it = Inr (t, it') \<Longrightarrow> dt_greater \<lparr>wall = t, tzinfo = job_tz\<rparr> week_end
   \<Longrightarrow> expand_history lib job_tz week_end it rs = Some rs"
  by (subst expand_history.simps) simp

lemma expand_history_step:
  "get_next lib it = Inr (t, it') \<Longrightarrow> \<not> dt_greater \<lparr>wall = t, tzinfo = job_tz\<rparr> week_end
   \<Longrightarrow> expand_history lib job_tz week_end it rs =
       expand_history lib job_tz week_end it'
         (rs @ [(\<lparr>wall = t, tzinfo = job_tz\<rparr>, astimezone \<lparr>wall = t, tzinfo = job_tz\<rparr> DISPLAY_TZ)])"
  by (subst expand_history.simps) (simp add: Let_def weekday_range)

lemma loop_of_history:
  assumes run: "expand_history lib job_tz week_end it h = Some h'"
  shows "expand_loop lib job_tz week_end it (map occurrence_of h) = Some (map occurrence_of h')"
proof (rule expand_history.raw_induct
    [where P = "\<lambda>lib job_tz week_end it h h'.
       expand_loop lib job_tz week_end it (map occurrence_of h) = Some (map occurrence_of h')",
     OF _ run])
  fix f :: "'a cronlib \<Rightarrow> tzinfo \<Rightarrow> datetime \<Rightarrow> 'a iterator \<Rightarrow> (datetime \<times> datetime) list
              \<Rightarrow> (datetime \<times> datetime) list option"
  fix lib job_tz week_end it h h'
  assume IH: "\<And>lib job_tz week_end it h h'. f lib job_tz week_end it h = Some h' \<Longrightarrow>
      expand_loop lib job_tz week_end it (map occurrence_of h) = Some (map occurrence_of h')"
  assume body: "(case get_next lib it of
        Inl e \<Rightarrow> Some h
      | Inr (t, it') \<Rightarrow>
          (let next_run = \<lparr>wall = t, tzinfo = job_tz\<rparr> in
           if dt_greater next_run week_end then Some h
           else
             (let next_display = astimezone next_run DISPLAY_TZ;
                  day_idx = weekday next_display
              in f lib job_tz week_end it'
                   (if 0 \<le> day_idx \<and> day_idx \<le> 6
                    then h @ [(next_run, next_display)]
                    else h)))) = Some h'"
  show "expand_loop lib job_tz week_end it (map occurrence_of h) = Some (map occurrence_of h')"
  proof (cases "get_next lib it")
    case (Inl e)
    with body show ?thesis by (simp add: expand_loop_raise)
  next
    case (Inr p)
    obtain t it' where p: "p = (t, it')" by (cases p)
    show ?thesis
    proof (cases "dt_greater \<lparr>wall = t, tzinfo = job_tz\<rparr> week_end")
      case True
      with body Inr p show ?thesis by (simp add: expand_loop_stop)
    next
      case False
      with body Inr p have
        "f lib job_tz week_end it'
           (h @ [(\<lparr>wall = t, tzinfo = job_tz\<rparr>, astimezone \<lparr>wall = t, tzinfo = job_tz\<rparr> DISPLAY_TZ)]) = Some h'"
        by (simp add: Let_def weekday_range)
      from IH[OF this] False Inr p show ?thesis
        by (simp add: expand_loop_step)
    qed
  qed
qed

lemma history_of_loop:
  assumes run: "expand_loop lib job_tz week_end it rs = Some rs'"
  shows "\<forall>h. rs = map occurrence_of h \<longrightarrow>
           (\<exists>h'. expand_history lib job_tz week_end it h = Some h' \<and> rs' = map occurrence_of h')"
proof (rule expand_loop.raw_induct
    [where P = "\<lambda>lib job_tz week_end it rs rs'. \<forall>h. rs = map occurrence_of h \<longrightarrow>
           (\<exists>h'. expand_history lib job_tz week_end it h = Some h' \<and> rs' = map occurrence_of h')",
     OF _ run])
  fix f :: "'a cronlib \<Rightarrow> tzinfo \<Rightarrow> datetime \<Rightarrow> 'a iterator \<Rightarrow> occurrence list \<Rightarrow> occurrence list option"
  fix lib job_tz week_end it rs rs'
  assume IH: "\<And>lib job_tz week_end it rs rs'. f lib job_tz week_end it rs = Some rs' \<Longrightarrow>
      \<forall>h. rs = map occurrence_of h \<longrightarrow>
           (\<exists>h'. expand_history lib job_tz week_end it h = Some h' \<and> rs' = map occurrence_of h')"
  assume body: "(case get_next lib it of
        Inl e \<Rightarrow> Some rs
      | Inr (t, it') \<Rightarrow>
          (let next_run = \<lparr>wall = t, tzinfo = job_tz\<rparr> in
           if dt_greater next_run week_end then Some rs
           else
             (let next_display = astimezone next_run DISPLAY_TZ;
                  day_idx = weekday next_display
              in f lib job_tz week_end it'
                   (if 0 \<le> day_idx \<and> day_idx \<le> 6
                    then rs @ [(day_idx, hour next_display, minute next_display)]
                    else rs)))) = Some rs'"
  show "\<forall>h. rs = map occurrence_of h \<longrightarrow>
           (\<exists>h'. expand_history lib job_tz week_end it h = Some h' \<and> rs' = map occurrence_of h')"
  proof (intro allI impI)
    fix h
    assume rs: "rs = map occurrence_of h"
    show "\<exists>h'. expand_history lib job_tz week_end it h = Some h' \<and> rs' = map occurrence_of h'"
    proof (cases "get_next lib it")
      case (Inl e)
      with body rs show ?thesis by (simp add: expand_history_raise)
    next
      case (Inr p)
      obtain t it' where p: "p = (t, it')" by (cases p)
      show ?thesis
      proof (cases "dt_greater \<lparr>wall = t, tzinfo = job_tz\<rparr> week_end")
        case True
        with body rs Inr p show ?thesis by (simp add: expand_history_stop)
      next
        case False
        let ?e = "(\<lparr>wall = t, tzinfo = job_tz\<rparr>, astimezone \<lparr>wall = t, tzinfo = job_tz\<rparr> DISPLAY_TZ)"
        from False body Inr p have
          "f lib job_tz week_end it' (rs @ [occurrence_of ?e]) = Some rs'"
          by (simp add: Let_def weekday_range occurrence_of_def)
        from IH[OF this] rs have
          "\<exists>h'. expand_history lib job_tz week_end it' (h @ [?e]) = Some h' \<and> rs' = map occurrence_of h'"
          by simp
        with False Inr p show ?thesis
          by (simp add: expand_history_step)
      qed
    qed
  qed
qed

lemma expand_loop_history:
  "expand_loop lib job_tz week_end it (map occurrence_of h) =
   map_option (map occurrence_of) (expand_history lib job_tz week_end it h)"
proof (cases "expand_history lib job_tz week_end it h")
  case None
  show ?thesis
  proof (cases "expand_loop lib job_tz week_end it (map occurrence_of h)")
    case None
    with \<open>expand_history lib job_tz week_end it h = None\<close> show ?thesis by simp
  next
    case (Some rs')
    from history_of_loop[OF this] None show ?thesis by auto
  qed
next
  case (Some h')
  from loop_of_history[OF this] Some show ?thesis by simp
qed

lemma get_occurrences_history:
  "get_occurrences lib db j wd = map_option (map_sum id (map occurrence_of)) (occurrence_history lib db j wd)"
  using expand_loop_history[of lib _ _ _ "[]"]
  by (simp add: get_occurrences_def occurrence_history_def Let_def option.map_comp comp_def
        split: sum.splits)

lemma get_next_Inr:
  "get_next lib it = Inr (t, it') \<Longrightarrow> next_after lib (sched it) (cur it) = Inr t \<and> it' = it\<lparr>cur := t\<rparr>"
  by (auto simp: get_next_def split: sum.splits)

lemma expand_history_total:
  assumes incr: "\<forall>c t. next_after lib s c = Inr t \<longrightarrow> c < t"
    and same: "key (tzinfo week_end) = key job_tz"
  shows "sched it = s \<Longrightarrow>
         \<exists>h'. expand_history lib job_tz week_end it h = Some h'
            \<and> int (length h') \<le> int (length h) + max 0 (wall week_end - cur it)
            \<and> (\<forall>p \<in> set h'. p \<in> set h \<or> (cur it < wall (fst p) \<and> wall (fst p) \<le> wall week_end))"
proof (induction "nat (wall week_end - cur it)" arbitrary: it h rule: less_induct)
  case less
  show ?case
  proof (cases "get_next lib it")
    case (Inl e)
    then show ?thesis by (simp add: expand_history_raise)
  next
    case (Inr p)
    obtain t it' where p: "p = (t, it')" by (cases p)
    with Inr have gn: "get_next lib it = Inr (t, it')" by simp
    from get_next_Inr[OF gn] less.prems incr
    have t: "cur it < t" and it': "it' = it\<lparr>cur := t\<rparr>" by auto
    show ?thesis
    proof (cases "dt_greater \<lparr>wall = t, tzinfo = job_tz\<rparr> week_end")
      case True
      with gn show ?thesis by (simp add: expand_history_stop)
    next
      case False
      with same have le: "t \<le> wall week_end" by (simp add: dt_greater_def)
      let ?e = "(\<lparr>wall = t, tzinfo = job_tz\<rparr>, astimezone \<lparr>wall = t, tzinfo = job_tz\<rparr> DISPLAY_TZ)"
      have m: "nat (wall week_end - cur it') < nat (wall week_end - cur it)"
        using t le it' by simp
      have s': "sched it' = s" using it' less.prems by simp
      from less.hyps[OF m s', of "h @ [?e]"]
      obtain h' where h': "expand_history lib job_tz week_end it' (h @ [?e]) = Some h'"
        and len: "int (length h') \<le> int (length (h @ [?e])) + max 0 (wall week_end - cur it')"
        and mem: "\<forall>p \<in> set h'. p \<in> set (h @ [?e]) \<or> (cur it' < wall (fst p) \<and> wall (fst p) \<le> wall week_end)"
        by blast
      have "expand_history lib job_tz week_end it h = Some h'"
        using gn False h' by (simp add: expand_history_step)
      moreover have "int (length h') \<le> int (length h) + max 0 (wall week_end - cur it)"
        using len t le it' by simp
      moreover have "\<forall>p \<in> set h'. p \<in> set h \<or> (cur it < wall (fst p) \<and> wall (fst p) \<le> wall week_end)"
        using mem t le it' by auto
      ultimately show ?thesis by blast
    qed
  qed
qed

lemma week_end_key: "key (tzinfo (week_end_of job_tz wd)) = key job_tz"
  by (simp add: week_end_of_def plus_minutes_def astimezone_def)

lemma monday_wall:
  "wall (hd (get_week_range now)) = 10080 * (wall now div 1440 div 7)"
proof -
  have "wall (hd (get_week_range now)) =
        wall now - 1440 * (wall now div 1440 mod 7) - (wall now - 1440 * (wall now div 1440 mod 7)) mod 1440"
    by (simp add: get_week_range_def Let_def plus_minutes_def weekday_def upt_rec)
  also have "(wall now - 1440 * (wall now div 1440 mod 7)) mod 1440 = wall now mod 1440"
    by (metis mod_mult_self1 mult.commute uminus_add_conv_diff add.commute mult_minus_right)
  finally have "wall (hd (get_week_range now)) = wall now - 1440 * (wall now div 1440 mod 7) - wall now mod 1440" .
  then show ?thesis by presburger
qed

lemma week_ends:
  "get_week_range now \<noteq> []"
  "wall (last (get_week_range now)) = wall (hd (get_week_range now)) + 8640"
  "tzinfo (hd (get_week_range now)) = tzinfo now"
  "tzinfo (last (get_week_range now)) = tzinfo now"
  "length (get_week_range now) = 7"
  by (simp_all add: get_week_range_def Let_def upt_rec plus_minutes_def)

lemma window_width:
  assumes now: "tzinfo now = DISPLAY_TZ"
    and offs: "\<forall>u. \<bar>fromutc job_tz u - u\<bar> \<le> 960"
  shows "wall (week_end_of job_tz (get_week_range now))
           - wall (week_start_of job_tz (get_week_range now)) \<le> 9 * 1440"
proof -
  let ?M = "wall (hd (get_week_range now))"
  have "\<bar>fromutc job_tz (?M + 8640 - 480) - (?M + 8640 - 480)\<bar> \<le> 960" using offs by blast
  then have a: "fromutc job_tz (?M + 8640 - 480) \<le> ?M + 9120" by linarith
  have "\<bar>fromutc job_tz (?M - 480) - (?M - 480)\<bar> \<le> 960" using offs by blast
  then have b: "?M - 1440 \<le> fromutc job_tz (?M - 480)" by linarith
  have e: "wall (week_end_of job_tz (get_week_range now)) =
           (if key job_tz = key DISPLAY_TZ then ?M + 8640 else fromutc job_tz (?M + 8640 - 480)) + 1500"
    using now by (simp add: week_end_of_def plus_minutes_def astimezone_def week_ends
        DISPLAY_TZ_def fixed_zone_def)
  have s: "wall (week_start_of job_tz (get_week_range now)) =
           (if key job_tz = key DISPLAY_TZ then ?M else fromutc job_tz (?M - 480)) - 60"
    using now by (simp add: week_start_of_def plus_minutes_def astimezone_def week_ends
        DISPLAY_TZ_def fixed_zone_def)
  show ?thesis unfolding e s using a b by (simp split: if_splits)
qed

lemma expand_loop_fires:
  assumes same: "key (tzinfo week_end) = key job_tz"
  shows "sched it = s \<Longrightarrow> fires_then_raises lib s (cur it) ts \<Longrightarrow> \<forall>t \<in> set ts. t \<le> wall week_end
     \<Longrightarrow> expand_loop lib job_tz week_end it rs = Some (rs @ map (display_occurrence job_tz) ts)"
proof (induction ts arbitrary: it rs)
  case Nil
  then obtain e where "next_after lib (sched it) (cur it) = Inl e"
    by (cases "next_after lib (sched it) (cur it)") auto
  then have "get_next lib it = Inl e" by (simp add: get_next_def)
  then show ?case by (simp add: expand_loop_raise)
next
  case (Cons t ts)
  then have gn: "get_next lib it = Inr (t, it\<lparr>cur := t\<rparr>)" by (simp add: get_next_def)
  have ng: "\<not> dt_greater \<lparr>wall = t, tzinfo = job_tz\<rparr> week_end"
    using Cons.prems(3) same by (simp add: dt_greater_def)
  have "expand_loop lib job_tz week_end (it\<lparr>cur := t\<rparr>) (rs @ [display_occurrence job_tz t])
        = Some ((rs @ [display_occurrence job_tz t]) @ map (display_occurrence job_tz) ts)"
    using Cons.prems by (intro Cons.IH) simp_all
  then show ?case
    using gn ng by (simp add: expand_loop_step display_occurrence_def)
qed

lemma monday_week: "wall (hd (get_week_range now)) = wall now - wall now mod 10080"
proof -
  have "wall now div 1440 div 7 = wall now div 10080"
    by (simp add: div_mult2_eq [symmetric])
  then have "wall (hd (get_week_range now)) = 10080 * (wall now div 10080)"
    by (simp add: monday_wall)
  then show ?thesis by (simp add: minus_mod_eq_mult_div)
qed

lemma monday_fields:
  "weekday (hd (get_week_range now)) = 0"
  "hour (hd (get_week_range now)) = 0"
  "minute (hd (get_week_range now)) = 0"
proof -
  let ?K = "wall now div 1440 div 7"
  have a: "(10080 * ?K) div 1440 = 7 * ?K" by simp
  have b: "(10080 * ?K) mod 1440 = 0" by simp
  have c: "(10080 * ?K) mod 60 = 0" by simp
  show "weekday (hd (get_week_range now)) = 0"
    unfolding weekday_def monday_wall a by simp
  show "hour (hd (get_week_range now)) = 0"
    unfolding hour_def monday_wall b by simp
  show "minute (hd (get_week_range now)) = 0"
    unfolding minute_def monday_wall c by simp
qed

section \<open>The claims about \<open>get_occurrences\<close>\<close>

text \<open>
  Claim C1 says that an unknown zone name is caught inside \<open>get_occurrences\<close> and the job
  contributes no occurrence. The code resolves the zone before it enters the \<open>try\<close>
  block: for every job whose zone name is not in the database, \<open>get_occurrences\<close> raises
  \<open>ZoneInfoNotFoundError\<close>, and the loop that fills the grid raises with it, whatever
  jobs follow.
\<close>

theorem unknown_tz_raises:
  assumes "db (case tz j of None \<Rightarrow> ''UTC'' | Some n \<Rightarrow> n) = None"
  shows "get_occurrences lib db j week_days = Some (Inl ZoneInfoNotFoundError)
       \<and> fill_grid lib db week_days (j # js) g = Some (Inl ZoneInfoNotFoundError)"
  using assms by (simp add: get_occurrences_def ZoneInfo_def)

theorem unknown_tz_raises_witness:
  "get_occurrences sample_cron sample_db (sample_job ''0 9 * * *'' (Some ''Mars/Olympus'')) (get_week_range sample_now)
     = Some (Inl ZoneInfoNotFoundError)
   \<and> fill_grid sample_cron sample_db (get_week_range sample_now)
       [sample_job ''0 9 * * *'' (Some ''Mars/Olympus''), sample_job ''0 9 * * *'' (Some ''UTC'')] empty_grid
     = Some (Inl ZoneInfoNotFoundError)"
proof -
  have "sample_db (case tz (sample_job ''0 9 * * *'' (Some ''Mars/Olympus'')) of None \<Rightarrow> ''UTC'' | Some n \<Rightarrow> n) = None"
    by (simp add: sample_db_def sample_job_def)
  from unknown_tz_raises[of sample_db "sample_job ''0 9 * * *'' (Some ''Mars/Olympus'')" sample_cron
      "get_week_range sample_now" "[sample_job ''0 9 * * *'' (Some ''UTC'')]" empty_grid, OF this]
  show ?thesis .
qed

text \<open>
  An expression of six fields is not a five-field cron expression, and the croniter
  package accepts it (the sixth field is the second): the job below fires every day at
  09:00:00 and contributes seven occurrences, not none.
\<close>

theorem six_field_cron_counterexample:
  "length (fields (cron (sample_job ''0 9 * * * 0'' (Some ''Asia/Taipei'')))) = 6
   \<and> get_occurrences sample_cron sample_db (sample_job ''0 9 * * * 0'' (Some ''Asia/Taipei''))
       (get_week_range sample_now)
     = Some (Inr [(0, 9, 0), (1, 9, 0), (2, 9, 0), (3, 9, 0), (4, 9, 0), (5, 9, 0), (6, 9, 0)])"
  by code_simp

text \<open>
  Claim C6, as the code has it: the test of validity is the cron library's own. For a
  job whose zone resolves and whose expression the library refuses when the iterator is
  constructed (as it refuses \<open>* * * *\<close>, which has four fields), \<open>get_occurrences\<close>
  returns the empty list for the week of seven anchors, and nothing is raised.
\<close>

theorem invalid_cron_empty:
  assumes zone: "ZoneInfo db (case tz j of None \<Rightarrow> ''UTC'' | Some n \<Rightarrow> n) = Inr job_tz"
    and week: "length week_days = 7"
    and invalid: "parse_expr lib (cron j) = Inl e"
  shows "get_occurrences lib db j week_days = Some (Inr [])"
  using assms by (auto simp: get_occurrences_def croniter_def Let_def)

theorem invalid_cron_empty_witness:
  "get_occurrences sample_cron sample_db (sample_job ''* * * *'' (Some ''UTC'')) (get_week_range sample_now)
   = Some (Inr [])"
proof -
  let ?j = "sample_job ''* * * *'' (Some ''UTC'')"
  have zone: "ZoneInfo sample_db (case tz ?j of None \<Rightarrow> ''UTC'' | Some n \<Rightarrow> n) = Inr (fixed_zone ''UTC'' 0)"
    by (simp add: ZoneInfo_def sample_db_def sample_job_def)
  have week: "length (get_week_range sample_now) = 7" by (simp add: week_ends)
  have invalid: "parse_expr sample_cron (cron ?j) = Inl CroniterBadCronError" by code_simp
  show ?thesis using invalid_cron_empty[OF zone week invalid] .
qed

text \<open>
  Claim C10: when the iterator fires at the times \<open>ts\<close> (none beyond the end of the
  window) and raises at the next call, \<open>get_occurrences\<close> returns the occurrences of
  \<open>ts\<close>, not the empty list.
\<close>

theorem raise_midway_keeps_results:
  assumes zone: "ZoneInfo db (case tz j of None \<Rightarrow> ''UTC'' | Some n \<Rightarrow> n) = Inr job_tz"
    and week: "week_days \<noteq> []"
    and valid: "parse_expr lib (cron j) = Inr s"
    and fires: "fires_then_raises lib s (wall (week_start_of job_tz week_days)) ts"
    and inside: "\<forall>t \<in> set ts. t \<le> wall (week_end_of job_tz week_days)"
    and some: "ts \<noteq> []"
  shows "get_occurrences lib db j week_days = Some (Inr (map (display_occurrence job_tz) ts))
         \<and> map (display_occurrence job_tz) ts \<noteq> []"
proof -
  have "expand_loop lib job_tz (week_end_of job_tz week_days)
          \<lparr>sched = s, cur = wall (week_start_of job_tz week_days)\<rparr> []
        = Some ([] @ map (display_occurrence job_tz) ts)"
    using fires inside by (intro expand_loop_fires week_end_key) simp_all
  then show ?thesis
    using zone week valid some by (simp add: get_occurrences_def croniter_def Let_def)
qed

theorem raise_midway_keeps_results_witness:
  "get_occurrences (with_horizon 4000 sample_cron) sample_db
     (sample_job ''30 12 * * *'' (Some ''Asia/Taipei'')) (get_week_range sample_now)
   = Some (Inr [(0, 12, 30), (1, 12, 30), (2, 12, 30)])"
proof -
  let ?lib = "with_horizon 4000 sample_cron"
  let ?j = "sample_job ''30 12 * * *'' (Some ''Asia/Taipei'')"
  let ?wd = "get_week_range sample_now"
  have zone: "ZoneInfo sample_db (case tz ?j of None \<Rightarrow> ''UTC'' | Some n \<Rightarrow> n) = Inr DISPLAY_TZ"
    by (simp add: ZoneInfo_def sample_db_def sample_job_def)
  have week: "?wd \<noteq> []" by (simp add: week_ends)
  have valid: "parse_expr ?lib (cron ?j) = Inr (Daily 750)" by code_simp
  have ws: "wall (week_start_of DISPLAY_TZ ?wd) = - 60" by code_simp
  have we: "wall (week_end_of DISPLAY_TZ ?wd) = 10140" by code_simp
  have fires: "fires_then_raises ?lib (Daily 750) (wall (week_start_of DISPLAY_TZ ?wd)) [750, 2190, 3630]"
    unfolding ws by code_simp
  have inside: "\<forall>t \<in> set [750, 2190, 3630]. t \<le> wall (week_end_of DISPLAY_TZ ?wd)"
    unfolding we by simp
  have occs: "map (display_occurrence DISPLAY_TZ) [750, 2190, 3630] = [(0, 12, 30), (1, 12, 30), (2, 12, 30)]"
    by code_simp
  show ?thesis
    using raise_midway_keeps_results[OF zone week valid fires inside] occs by simp
qed

text \<open>
  Claim C2 says that a once-daily job in the display zone gives exactly seven
  occurrences, one for each day. For the job that fires at 23:30 the code returns eight:
  the window opens at Sunday 23:00 of the week before, so the firing of that Sunday comes
  first, as day 6, and the Sunday of the week itself comes last, as day 6 again.
\<close>

theorem daily_late_evening_eight:
  "parse_expr sample_cron (cron (sample_job ''30 23 * * *'' (Some ''Asia/Taipei''))) = Inr (Daily (23 * 60 + 30))
   \<and> ZoneInfo sample_db ''Asia/Taipei'' = Inr DISPLAY_TZ
   \<and> get_occurrences sample_cron sample_db (sample_job ''30 23 * * *'' (Some ''Asia/Taipei''))
       (get_week_range sample_now)
     = Some (Inr [(6, 23, 30), (0, 23, 30), (1, 23, 30), (2, 23, 30), (3, 23, 30), (4, 23, 30),
                  (5, 23, 30), (6, 23, 30)])"
proof -
  have "ZoneInfo sample_db ''Asia/Taipei'' = Inr DISPLAY_TZ"
    by (simp add: ZoneInfo_def sample_db_def)
  moreover have "parse_expr sample_cron (cron (sample_job ''30 23 * * *'' (Some ''Asia/Taipei'')))
      = Inr (Daily (23 * 60 + 30))"
    by code_simp
  moreover have "get_occurrences sample_cron sample_db (sample_job ''30 23 * * *'' (Some ''Asia/Taipei''))
       (get_week_range sample_now)
     = Some (Inr [(6, 23, 30), (0, 23, 30), (1, 23, 30), (2, 23, 30), (3, 23, 30), (4, 23, 30),
                  (5, 23, 30), (6, 23, 30)])"
    by code_simp
  ultimately show ?thesis by blast
qed

text \<open>
  Claim C3 says that every emitted occurrence lies in the display week, from Monday 00:00
  to the following Monday 00:00. The week of the render time below runs from reading 0 to
  reading 10080 on the display clock. The job that fires at 23:30 has an occurrence
  emitted at reading -30, the Sunday before the week; the job that fires at 00:30 has one
  emitted at reading 10110, the Monday after it, which lands in the cell of day 0 a
  second time. The test \<open>0 <= day_idx <= 6\<close> holds for every weekday and removes neither.
\<close>

theorem occurrence_outside_week:
  "map wall (get_week_range sample_now) = [0, 1440, 2880, 4320, 5760, 7200, 8640]
   \<and> map_option (map_sum id display_walls)
       (occurrence_history sample_cron sample_db (sample_job ''30 23 * * *'' (Some ''Asia/Taipei''))
          (get_week_range sample_now))
     = Some (Inr [- 30, 1410, 2850, 4290, 5730, 7170, 8610, 10050])
   \<and> map_option (map_sum id display_walls)
       (occurrence_history sample_cron sample_db (sample_job ''30 0 * * *'' (Some ''Asia/Taipei''))
          (get_week_range sample_now))
     = Some (Inr [30, 1470, 2910, 4350, 5790, 7230, 8670, 10110])
   \<and> get_occurrences sample_cron sample_db (sample_job ''30 0 * * *'' (Some ''Asia/Taipei''))
       (get_week_range sample_now)
     = Some (Inr [(0, 0, 30), (1, 0, 30), (2, 0, 30), (3, 0, 30), (4, 0, 30), (5, 0, 30),
                  (6, 0, 30), (0, 0, 30)])"
  by code_simp

text \<open>
  The upper end of the window is taken from the last anchor of the week, Sunday 00:00,
  not from the start of the eighth day: for a job in UTC it is 1440 minutes earlier than
  the following Monday 00:00 converted and moved by 25 hours.
\<close>

theorem week_end_not_day_eight_counterexample:
  "wall (week_end_of (fixed_zone ''UTC'' 0) (get_week_range sample_now)) = 9660
   \<and> wall (plus_minutes (astimezone (plus_minutes (hd (get_week_range sample_now)) (7 * 1440))
                           (fixed_zone ''UTC'' 0)) (25 * 60)) = 11100"
  by code_simp

text \<open>
  Claim C4, as the code has it: the week of \<open>get_week_range\<close> starts at the Monday 00:00
  at or before the render time and ends with the anchor of Sunday 00:00, six days later.
  The lower end of the search window is the Monday anchor converted to the job's zone,
  minus 1 hour; the upper end is the Sunday anchor converted to the job's zone, plus 25
  hours.
\<close>

theorem search_window_bounds:
  "(let wd = get_week_range now; monday = hd wd; sunday = plus_minutes monday (6 * 1440) in
     weekday monday = 0 \<and> hour monday = 0 \<and> minute monday = 0
     \<and> wall monday \<le> wall now \<and> wall now < wall monday + 7 * 1440
     \<and> tzinfo monday = tzinfo now
     \<and> last wd = sunday
     \<and> week_start_of job_tz wd = plus_minutes (astimezone monday job_tz) (- 60)
     \<and> week_end_of job_tz wd = plus_minutes (astimezone sunday job_tz) (25 * 60))"
proof -
  let ?wd = "get_week_range now"
  have l: "last ?wd = plus_minutes (hd ?wd) (6 * 1440)"
    by (simp add: get_week_range_def Let_def upt_rec plus_minutes_def)
  have r: "wall (hd ?wd) \<le> wall now" "wall now < wall (hd ?wd) + 7 * 1440"
    unfolding monday_week by simp_all
  show ?thesis
    unfolding Let_def using l r
    by (simp add: monday_fields week_start_of_def week_end_of_def week_ends)
qed

theorem search_window_bounds_witness:
  "wall (week_start_of (fixed_zone ''Asia/Tokyo'' 540) (get_week_range sample_now)) = 0
   \<and> wall (week_end_of (fixed_zone ''Asia/Tokyo'' 540) (get_week_range sample_now)) = 10200"
proof -
  have m: "wall (hd (get_week_range sample_now)) = 0" by code_simp
  have t: "tzinfo (hd (get_week_range sample_now)) = DISPLAY_TZ"
    by (simp add: week_ends sample_now_def)
  show ?thesis
    using search_window_bounds[of sample_now "fixed_zone ''Asia/Tokyo'' 540"] m t
    by (simp add: Let_def plus_minutes_def astimezone_def fixed_zone_def DISPLAY_TZ_def)
qed

text \<open>
  Claim C7: for a job whose zone resolves and whose expression the cron library accepts,
  with firing times that strictly increase, the loop of \<open>get_occurrences\<close> returns. The
  stop test compares the raw firing time with \<open>week_end\<close> on the clock of the job's zone,
  before the conversion to the display zone, so every firing that is kept lies in the
  window, after \<open>week_start\<close> and not after \<open>week_end\<close>, and there are no more of them
  than the window has minutes. For a zone whose offset from UTC stays within 16 hours, as
  every zone of the IANA database does, the window is at most 9 days wide.
\<close>

theorem expansion_terminates:
  assumes zone: "ZoneInfo db (case tz j of None \<Rightarrow> ''UTC'' | Some n \<Rightarrow> n) = Inr job_tz"
    and valid: "parse_expr lib (cron j) = Inr s"
    and incr: "\<forall>c t. next_after lib s c = Inr t \<longrightarrow> c < t"
    and now: "tzinfo now = DISPLAY_TZ"
  shows "\<exists>h. occurrence_history lib db j (get_week_range now) = Some (Inr h)
           \<and> get_occurrences lib db j (get_week_range now) = Some (Inr (map occurrence_of h))
           \<and> (\<forall>p \<in> set h. wall (week_start_of job_tz (get_week_range now)) < wall (fst p)
                           \<and> wall (fst p) \<le> wall (week_end_of job_tz (get_week_range now)))
           \<and> int (length h) \<le> max 0 (wall (week_end_of job_tz (get_week_range now))
                                        - wall (week_start_of job_tz (get_week_range now)))
           \<and> ((\<forall>u. \<bar>fromutc job_tz u - u\<bar> \<le> 960) \<longrightarrow>
                 wall (week_end_of job_tz (get_week_range now))
                   - wall (week_start_of job_tz (get_week_range now)) \<le> 9 * 1440
                 \<and> int (length h) \<le> 9 * 1440)"
proof -
  let ?wd = "get_week_range now"
  let ?ws = "week_start_of job_tz ?wd"
  let ?we = "week_end_of job_tz ?wd"
  let ?it = "\<lparr>sched = s, cur = wall ?ws\<rparr>"
  have "sched ?it = s" by simp
  from expand_history_total[OF incr week_end_key this, of job_tz ?wd "[]"]
  obtain h where run: "expand_history lib job_tz ?we ?it [] = Some h"
    and len: "int (length h) \<le> max 0 (wall ?we - wall ?ws)"
    and mem: "\<forall>p \<in> set h. wall ?ws < wall (fst p) \<and> wall (fst p) \<le> wall ?we"
    by auto
  have hist: "occurrence_history lib db j ?wd = Some (Inr h)"
    using zone valid run by (simp add: occurrence_history_def croniter_def Let_def week_ends)
  then have occ: "get_occurrences lib db j ?wd = Some (Inr (map occurrence_of h))"
    by (simp add: get_occurrences_history)
  have wide: "(\<forall>u. \<bar>fromutc job_tz u - u\<bar> \<le> 960) \<longrightarrow>
      wall ?we - wall ?ws \<le> 9 * 1440 \<and> int (length h) \<le> 9 * 1440"
  proof
    assume "\<forall>u. \<bar>fromutc job_tz u - u\<bar> \<le> 960"
    from window_width[OF now this] len
    show "wall ?we - wall ?ws \<le> 9 * 1440 \<and> int (length h) \<le> 9 * 1440" by simp
  qed
  from hist occ mem len wide show ?thesis by blast
qed

theorem expansion_terminates_witness:
  "\<exists>h. get_occurrences sample_cron sample_db (sample_job ''* * * * *'' (Some ''Asia/Tokyo''))
          (get_week_range sample_now) = Some (Inr (map occurrence_of h))
       \<and> int (length h) \<le> 9 * 1440"
proof -
  let ?j = "sample_job ''* * * * *'' (Some ''Asia/Tokyo'')"
  have zone: "ZoneInfo sample_db (case tz ?j of None \<Rightarrow> ''UTC'' | Some n \<Rightarrow> n)
                = Inr (fixed_zone ''Asia/Tokyo'' 540)"
    by (simp add: ZoneInfo_def sample_db_def sample_job_def)
  have valid: "parse_expr sample_cron (cron ?j) = Inr EveryMinute" by code_simp
  have incr: "\<forall>c t. next_after sample_cron EveryMinute c = Inr t \<longrightarrow> c < t"
    by (simp add: sample_cron_def)
  have now: "tzinfo sample_now = DISPLAY_TZ" by (simp add: sample_now_def)
  have offs: "\<forall>u. \<bar>fromutc (fixed_zone ''Asia/Tokyo'' 540) u - u\<bar> \<le> 960"
    by (simp add: fixed_zone_def)
  from expansion_terminates[OF zone valid incr now] offs show ?thesis by blast
qed


subsection \<open>A job nine hours ahead of the display zone\<close>









section \<open>The claim about the legend\<close>












section \<open>The claim about sync\_jobs.py\<close>

lemma successful_fetch_writes_store: "jobs_file (snd (main (sample_env 0 ''{}'') sample_world)) = Some ''[...]''"
  by code_simp

text \<open>
  Claim C8: when the scheduler command returns a non-zero code, or its output is not
  JSON, \<open>main\<close> ends with exit status 1 and the job store file holds what it held
  before.
\<close>

theorem failed_fetch_keeps_store:
  assumes "returncode (scheduler ev) \<noteq> 0 \<or> loads ev (stdout (scheduler ev)) = None"
  shows "fst (main ev w) = 1 \<and> fst (main ev w) \<noteq> 0 \<and> jobs_file (snd (main ev w)) = jobs_file w"
  using assms by (auto simp: main_def get_openclaw_jobs_def Let_def)

theorem failed_fetch_keeps_store_witness:
  "fst (main (sample_env 2 ''{}'') sample_world) = 1
   \<and> jobs_file (snd (main (sample_env 2 ''{}'') sample_world)) = Some ''[]''
   \<and> fst (main (sample_env 0 ''not json'') sample_world) = 1
   \<and> jobs_file (snd (main (sample_env 0 ''not json'') sample_world)) = Some ''[]''"
proof -
  have a: "returncode (scheduler (sample_env 2 ''{}'')) \<noteq> 0
           \<or> loads (sample_env 2 ''{}'') (stdout (scheduler (sample_env 2 ''{}''))) = None"
    by (simp add: sample_env_def)
  have b: "returncode (scheduler (sample_env 0 ''not json'')) \<noteq> 0
           \<or> loads (sample_env 0 ''not json'') (stdout (scheduler (sample_env 0 ''not json''))) = None"
    by (simp add: sample_env_def sample_loads_def)
  from failed_fetch_keeps_store[OF a, of sample_world] failed_fetch_keeps_store[OF b, of sample_world]
  show ?thesis by (simp add: sample_world_def)
qed

end
